theory Spec2Isabelle
  imports Complex_Main
begin

section \<open>Data model (src/types.ts)\<close>

text \<open>
  The program is TypeScript; every scalar is a JavaScript \<open>number\<close>. The arithmetic of
  the program is modelled over \<^typ>\<open>real\<close>: rounding, overflow and the non-finite values
  are outside this model, except in \<open>formatNumber\<close> below, whose whole purpose is the
  non-finite case and which therefore takes a \<open>jsnumber\<close>.

  Record selectors are global constants, so the one-letter fields of the source are
  prefixed: \<open>a b c d\<close> of \<open>Matrix\<close> are \<open>m_a m_b m_c m_d\<close>, \<open>x y\<close> of \<open>Vector2\<close> are
  \<open>v_x v_y\<close>, and \<open>t\<close> of \<open>AppState\<close> is \<open>t_param\<close>. All other fields keep their names.
\<close>

record Matrix =
  m_a :: real
  m_b :: real
  m_c :: real
  m_d :: real

record Vector2 =
  v_x :: real
  v_y :: real

text \<open>\<open>PinnedVector = Vector2 & { Tx; Ty }\<close>: a vector extended by its image at pin time.\<close>

record PinnedVector = Vector2 +
  Tx :: real
  Ty :: real

datatype GridMode = original | transformed | both

record CameraState =
  offsetX :: real
  offsetY :: real
  zoom :: real

record AppState =
  matrix :: Matrix
  t_param :: real
  probeVector :: Vector2
  pinnedVectors :: "PinnedVector list"
  camera :: CameraState
  gridMode :: GridMode
  presetId :: "string option"
  isPlaying :: bool

section \<open>Linear-algebra utilities (src/utils/linearAlgebra.ts)\<close>

definition identityMatrix :: Matrix where
  "identityMatrix = \<lparr>m_a = 1, m_b = 0, m_c = 0, m_d = 1\<rparr>"

definition multiplyMatrixVector :: "Matrix \<Rightarrow> Vector2 \<Rightarrow> Vector2" where
  "multiplyMatrixVector mat vec =
     \<lparr>v_x = m_a mat * v_x vec + m_b mat * v_y vec,
      v_y = m_c mat * v_x vec + m_d mat * v_y vec\<rparr>"

definition determinant :: "Matrix \<Rightarrow> real" where
  "determinant mat = m_a mat * m_d mat - m_b mat * m_c mat"

definition interpolatePoint :: "Vector2 \<Rightarrow> Matrix \<Rightarrow> real \<Rightarrow> Vector2" where
  "interpolatePoint point mat u =
     (let transformed = multiplyMatrixVector mat point
      in \<lparr>v_x = (1 - u) * v_x point + u * v_x transformed,
          v_y = (1 - u) * v_y point + u * v_y transformed\<rparr>)"

definition lerp :: "real \<Rightarrow> real \<Rightarrow> real \<Rightarrow> real" where
  "lerp p q u = (1 - u) * p + u * q"

text \<open>\<open>clamp(value, min, max) = Math.min(max, Math.max(min, value))\<close>.\<close>

definition clamp :: "real \<Rightarrow> real \<Rightarrow> real \<Rightarrow> real" where
  "clamp v lo hi = min hi (max lo v)"

text \<open>
  \<open>formatNumber(value, precision = 2)\<close>. Its argument can be any JavaScript number, so
  it is a \<open>jsnumber\<close>: the real value of a finite double, or one of the three
  non-finite values. (A decimal literal of JavaScript denotes the nearest double, so
  the \<open>jsnumber\<close> of the literal \<open>1.005\<close> is the real value of that double, which is
  below \<open>1005/1000\<close>.) The parameter \<open>precision\<close> is optional: \<open>None\<close> is the omitted
  argument, which the source defaults to 2.
\<close>

datatype jsnumber = Finite real | NaN | PosInfinity | NegInfinity

datatype js_error = RangeError

fun Number_isNaN :: "jsnumber \<Rightarrow> bool" where
  "Number_isNaN NaN = True"
| "Number_isNaN _ = False"

fun Number_isFinite :: "jsnumber \<Rightarrow> bool" where
  "Number_isFinite (Finite _) = True"
| "Number_isFinite _ = False"

text \<open>
  \<open>Number.prototype.toFixed\<close> is a primitive of the language, not code of this program.
  It is modelled after its definition in the language standard (ECMA-262,
  \<open>Number.prototype.toFixed(fractionDigits)\<close>), step by step: the argument is
  converted by \<open>ToIntegerOrInfinity\<close> (\<open>NaN\<close> becomes 0, a finite value is truncated
  towards zero); a result outside \<open>0..100\<close> throws \<open>RangeError\<close>; a non-finite receiver
  gives its name; the sign is split off; from \<open>10^21\<close> on the general conversion
  \<open>Number::toString\<close> is used; below, \<open>n\<close> is the integer for which \<open>n / 10^f\<close> is
  closest to the value (the larger one of two), written in decimal, padded with zeros
  to \<open>f + 1\<close> digits and split by a point before the last \<open>f\<close> digits.
  The digits that \<open>Number::toString\<close> produces depend on the neighbouring doubles of
  its argument, so that conversion is a parameter, \<open>toString\<close>, of the model.
\<close>

datatype integer_or_infinity = Integral int | PlusInfinity | MinusInfinity

fun ToIntegerOrInfinity :: "jsnumber \<Rightarrow> integer_or_infinity" where
  "ToIntegerOrInfinity NaN = Integral 0"
| "ToIntegerOrInfinity PosInfinity = PlusInfinity"
| "ToIntegerOrInfinity NegInfinity = MinusInfinity"
| "ToIntegerOrInfinity (Finite r) = Integral (if r < 0 then \<lceil>r\<rceil> else \<lfloor>r\<rfloor>)"

definition digit_char :: "nat \<Rightarrow> char" where
  "digit_char d = ''0123456789'' ! d"

text \<open>The decimal representation of a natural number, \<open>''0''\<close> for zero.\<close>

function digits :: "nat \<Rightarrow> string" where
  "digits n = (if n < 10 then [digit_char n] else digits (n div 10) @ [digit_char (n mod 10)])"
  by pat_completeness auto
termination
  by (relation "measure id") auto

declare digits.simps [simp del]

definition pad_zeros :: "nat \<Rightarrow> string \<Rightarrow> string" where
  "pad_zeros f m =
     (let k = length m in if k \<le> f then replicate (f + 1 - k) (CHR ''0'') @ m else m)"

definition insert_point :: "nat \<Rightarrow> string \<Rightarrow> string" where
  "insert_point f m = (let k = length m in take (k - f) m @ ''.'' @ drop (k - f) m)"

definition toFixed :: "(real \<Rightarrow> string) \<Rightarrow> jsnumber \<Rightarrow> jsnumber \<Rightarrow> js_error + string" where
  "toFixed toString x fractionDigits =
     (case ToIntegerOrInfinity fractionDigits of
        PlusInfinity \<Rightarrow> Inl RangeError
      | MinusInfinity \<Rightarrow> Inl RangeError
      | Integral f \<Rightarrow>
          if f < 0 \<or> f > 100 then Inl RangeError
          else
            (case x of
               NaN \<Rightarrow> Inr ''NaN''
             | PosInfinity \<Rightarrow> Inr ''Infinity''
             | NegInfinity \<Rightarrow> Inr ''-Infinity''
             | Finite r \<Rightarrow>
                 let s = (if r < 0 then ''-'' else []);
                     x = \<bar>r\<bar>
                 in if x \<ge> 10 ^ 21 then Inr (s @ toString x)
                    else
                      let n = nat \<lfloor>x * 10 ^ nat f + 1 / 2\<rfloor>;
                          m = digits n;
                          m = (if f \<noteq> 0 then insert_point (nat f) (pad_zeros (nat f) m) else m)
                      in Inr (s @ m)))"

text \<open>
  The string literal the source returns for a non-finite value, as the bytes (UTF-8)
  of the source file: the three characters U+00E2, U+20AC, U+201D, which are the bytes
  \<open>E2 80 94\<close> of the dash U+2014 read in a one-byte encoding.
\<close>

definition sentinel :: string where
  "sentinel = [CHR 0xC3, CHR 0xA2, CHR 0xE2, CHR 0x82, CHR 0xAC, CHR 0xE2, CHR 0x80, CHR 0x9D]"

definition formatNumber ::
  "(real \<Rightarrow> string) \<Rightarrow> jsnumber \<Rightarrow> jsnumber option \<Rightarrow> js_error + string" where
  "formatNumber toString val precisionArg =
     (let precision = (case precisionArg of None \<Rightarrow> Finite 2 | Some p \<Rightarrow> p)
      in if Number_isNaN val \<or> \<not> Number_isFinite val then Inr sentinel
         else toFixed toString val precision)"

text \<open>
  What a rendering denotes, for the statement of the formatting claim: a character is
  a decimal digit, the value of a digit, and the natural number a string of digits
  denotes.
\<close>

definition is_digit :: "char \<Rightarrow> bool" where
  "is_digit ch \<longleftrightarrow> ch \<in> set ''0123456789''"

definition digit_value :: "char \<Rightarrow> nat" where
  "digit_value ch = of_char ch - 48"

definition read_digits :: "string \<Rightarrow> nat" where
  "read_digits cs = foldl (\<lambda>acc ch. 10 * acc + digit_value ch) 0 cs"

section \<open>Application state container (App)\<close>

text \<open>
  A preset of the preset table (fields \<open>id\<close>, \<open>label\<close>, \<open>matrix\<close>, \<open>description\<close> of the
  source, prefixed here).
\<close>

record Preset =
  preset_id :: string
  preset_label :: string
  preset_matrix :: Matrix
  preset_description :: string

definition INITIAL_CAMERA :: CameraState where
  "INITIAL_CAMERA = \<lparr>offsetX = 0, offsetY = 0, zoom = 80\<rparr>"

definition INITIAL_STATE :: AppState where
  "INITIAL_STATE =
     \<lparr>matrix = identityMatrix,
      t_param = 1,
      probeVector = \<lparr>v_x = 1, v_y = 1\<rparr>,
      pinnedVectors = [],
      camera = INITIAL_CAMERA,
      gridMode = both,
      presetId = Some ''identity'',
      isPlaying = False\<rparr>"

definition matricesEqual :: "Matrix \<Rightarrow> Matrix \<Rightarrow> bool" where
  "matricesEqual p q \<longleftrightarrow> m_a p = m_a q \<and> m_b p = m_b q \<and> m_c p = m_c q \<and> m_d p = m_d q"

text \<open>
  The memoised value \<open>transformedProbe\<close> of a render: the image of the probe vector of
  the rendered state under the matrix of the rendered state.
\<close>

definition transformedProbe :: "AppState \<Rightarrow> Vector2" where
  "transformedProbe s = multiplyMatrixVector (matrix s) (probeVector s)"

text \<open>
  \<open>Array.prototype.slice(start)\<close> with one argument: a negative \<open>start\<close> counts from the
  end, and both directions are cut off at the ends of the array.
\<close>

definition slice :: "int \<Rightarrow> 'a list \<Rightarrow> 'a list" where
  "slice start xs =
     (let len = int (length xs);
          k = (if start < 0 then max (len + start) 0 else min start len)
      in drop (nat k) xs)"

text \<open>
  Each handler passes an updater \<open>prev \<Rightarrow> next\<close> to \<open>setState\<close>; the model is the
  updater, a function from the previous state to the next one.
\<close>

definition handlePresetChange :: "Preset \<Rightarrow> AppState \<Rightarrow> AppState" where
  "handlePresetChange preset prev =
     prev\<lparr>matrix := preset_matrix preset, presetId := Some (preset_id preset)\<rparr>"

definition handleMatrixChange :: "Matrix \<Rightarrow> AppState \<Rightarrow> AppState" where
  "handleMatrixChange mat prev =
     prev\<lparr>matrix := mat,
          presetId := Some (if matricesEqual mat identityMatrix then ''identity'' else ''custom'')\<rparr>"

definition handlePlayPause :: "AppState \<Rightarrow> AppState" where
  "handlePlayPause prev = prev\<lparr>isPlaying := \<not> isPlaying prev\<rparr>"

definition handleTChange :: "real \<Rightarrow> AppState \<Rightarrow> AppState" where
  "handleTChange val prev = prev\<lparr>t_param := clamp val 0 1, isPlaying := False\<rparr>"

definition handleProbeChange :: "Vector2 \<Rightarrow> AppState \<Rightarrow> AppState" where
  "handleProbeChange vec prev = prev\<lparr>probeVector := vec\<rparr>"

text \<open>
  \<open>handlePinVector\<close> closes over \<open>transformedProbe\<close> of the render in which the callback
  was created; the closure value is the first argument \<open>tprobe\<close>.
\<close>

definition handlePinVector :: "Vector2 \<Rightarrow> AppState \<Rightarrow> AppState" where
  "handlePinVector tprobe prev =
     (let newPin = \<lparr>v_x = v_x (probeVector prev), v_y = v_y (probeVector prev),
                     Tx = v_x tprobe, Ty = v_y tprobe\<rparr>;
          limitedPins = slice (- 6) (pinnedVectors prev @ [newPin])
      in prev\<lparr>pinnedVectors := limitedPins\<rparr>)"

definition handleGridModeChange :: "GridMode \<Rightarrow> AppState \<Rightarrow> AppState" where
  "handleGridModeChange mode prev = prev\<lparr>gridMode := mode\<rparr>"

definition handleCameraChange :: "CameraState \<Rightarrow> AppState \<Rightarrow> AppState" where
  "handleCameraChange cam prev = prev\<lparr>camera := cam\<rparr>"

definition handleResetCamera :: "AppState \<Rightarrow> AppState" where
  "handleResetCamera prev = prev\<lparr>camera := INITIAL_CAMERA\<rparr>"

text \<open>
  The component holds, beside the state, the mutable reference \<open>directionRef\<close>
  (initially 1), which the animation callback reads and writes.
\<close>

record App =
  state :: AppState
  directionRef :: real

definition INITIAL_APP :: App where
  "INITIAL_APP = \<lparr>state = INITIAL_STATE, directionRef = 1\<rparr>"

definition handleAnimationFrame :: "real \<Rightarrow> App \<Rightarrow> App" where
  "handleAnimationFrame delta app =
     (let prev = state app in
      if \<not> isPlaying prev then app
      else
        let speed = 0.0004;
            nextT = t_param prev + delta * speed * directionRef app;
            direction = directionRef app;
            (nextT, direction) =
              (if nextT \<ge> 1 then (1, - 1)
               else if nextT \<le> 0 then (0, 1)
               else (nextT, direction))
        in \<lparr>state = prev\<lparr>t_param := nextT\<rparr>, directionRef = direction\<rparr>)"

text \<open>
  The events the component reacts to, one per callback, and the run of the component
  from its initial state. The view is rendered anew after every state change, so the
  pin callback of a state closes over the \<open>transformedProbe\<close> of that state.
\<close>

datatype Event =
    PresetChange Preset
  | MatrixChange Matrix
  | PlayPause
  | TChange real
  | ProbeChange Vector2
  | PinVector
  | GridModeChange GridMode
  | CameraChange CameraState
  | ResetCamera
  | AnimationFrame real

fun step :: "App \<Rightarrow> Event \<Rightarrow> App" where
  "step app (PresetChange preset) = app\<lparr>state := handlePresetChange preset (state app)\<rparr>"
| "step app (MatrixChange mat) = app\<lparr>state := handleMatrixChange mat (state app)\<rparr>"
| "step app PlayPause = app\<lparr>state := handlePlayPause (state app)\<rparr>"
| "step app (TChange val) = app\<lparr>state := handleTChange val (state app)\<rparr>"
| "step app (ProbeChange vec) = app\<lparr>state := handleProbeChange vec (state app)\<rparr>"
| "step app PinVector =
     app\<lparr>state := handlePinVector (transformedProbe (state app)) (state app)\<rparr>"
| "step app (GridModeChange mode) = app\<lparr>state := handleGridModeChange mode (state app)\<rparr>"
| "step app (CameraChange cam) = app\<lparr>state := handleCameraChange cam (state app)\<rparr>"
| "step app ResetCamera = app\<lparr>state := handleResetCamera (state app)\<rparr>"
| "step app (AnimationFrame delta) = handleAnimationFrame delta app"

definition run :: "Event list \<Rightarrow> App" where
  "run evs = foldl step INITIAL_APP evs"

section \<open>Canvas view: camera model and pointer handlers (CanvasView)\<close>

definition MIN_ZOOM :: real where
  "MIN_ZOOM = 20"

definition MAX_ZOOM :: real where
  "MAX_ZOOM = 400"

text \<open>
  A screen point has the shape \<open>{x, y}\<close> of a \<open>Vector2\<close>. The camera is a prop of the
  component, so it is the first argument of the two maps.
\<close>

type_synonym ScreenPoint = Vector2

definition worldToScreen :: "CameraState \<Rightarrow> Vector2 \<Rightarrow> real \<Rightarrow> real \<Rightarrow> ScreenPoint" where
  "worldToScreen cam point w h =
     \<lparr>v_x = (v_x point - offsetX cam) * zoom cam + w / 2,
      v_y = h / 2 - (v_y point - offsetY cam) * zoom cam\<rparr>"

definition screenToWorld :: "CameraState \<Rightarrow> ScreenPoint \<Rightarrow> real \<Rightarrow> real \<Rightarrow> Vector2" where
  "screenToWorld cam point w h =
     \<lparr>v_x = (v_x point - w / 2) / zoom cam + offsetX cam,
      v_y = - (v_y point - h / 2) / zoom cam + offsetY cam\<rparr>"

text \<open>
  The canvas element is \<open>None\<close> while it is not mounted (\<open>canvasRef.current\<close> is null)
  and otherwise known by its bounding rectangle. Pointer and wheel events carry the
  client position; a wheel event also carries \<open>deltaY\<close>. The three mutable references
  of the component are one record. A handler returns the references after the call
  and the callbacks it invoked, as events for the owner of the state.
\<close>

record Rect =
  rect_left :: real
  rect_top :: real
  rect_width :: real
  rect_height :: real

record MouseEvent =
  clientX :: real
  clientY :: real

record WheelEvent = MouseEvent +
  deltaY :: real

datatype DragMode = none | vector | pan

record CanvasRefs =
  dragModeRef :: DragMode
  pointerMovedRef :: bool
  lastPointerRef :: ScreenPoint

definition hypot :: "real \<Rightarrow> real \<Rightarrow> real" where
  "hypot p q = sqrt (p * p + q * q)"

definition handlePointerDown ::
  "CameraState \<Rightarrow> Vector2 \<Rightarrow> Rect option \<Rightarrow> CanvasRefs \<Rightarrow> MouseEvent \<Rightarrow> CanvasRefs" where
  "handlePointerDown cam probe canvas refs event =
     (case canvas of
        None \<Rightarrow> refs
      | Some rect \<Rightarrow>
          let point = \<lparr>v_x = clientX event - rect_left rect, v_y = clientY event - rect_top rect\<rparr>;
              probeTipScreen = worldToScreen cam probe (rect_width rect) (rect_height rect);
              distance = hypot (v_x probeTipScreen - v_x point) (v_y probeTipScreen - v_y point)
          in \<lparr>dragModeRef = (if distance < 16 then vector else pan),
              pointerMovedRef = False,
              lastPointerRef = point\<rparr>)"

definition handlePointerMove ::
  "CameraState \<Rightarrow> Rect option \<Rightarrow> CanvasRefs \<Rightarrow> MouseEvent \<Rightarrow> CanvasRefs \<times> Event list" where
  "handlePointerMove cam canvas refs event =
     (case canvas of
        None \<Rightarrow> (refs, [])
      | Some rect \<Rightarrow>
          let point = \<lparr>v_x = clientX event - rect_left rect, v_y = clientY event - rect_top rect\<rparr>;
              lastPoint = lastPointerRef refs;
              dx = v_x point - v_x lastPoint;
              dy = v_y point - v_y lastPoint
          in if dragModeRef refs = vector then
               (refs\<lparr>pointerMovedRef := True, lastPointerRef := point\<rparr>,
                [ProbeChange (screenToWorld cam point (rect_width rect) (rect_height rect))])
             else if dragModeRef refs = pan then
               (refs\<lparr>pointerMovedRef := True, lastPointerRef := point\<rparr>,
                [CameraChange \<lparr>offsetX = offsetX cam - dx / zoom cam,
                               offsetY = offsetY cam + dy / zoom cam,
                               zoom = zoom cam\<rparr>])
             else (refs\<lparr>lastPointerRef := point\<rparr>, []))"

definition endPointerInteraction ::
  "CameraState \<Rightarrow> Rect option \<Rightarrow> CanvasRefs \<Rightarrow> MouseEvent \<Rightarrow> CanvasRefs \<times> Event list" where
  "endPointerInteraction cam canvas refs event =
     (case canvas of
        None \<Rightarrow> (refs, [])
      | Some rect \<Rightarrow>
          let point = \<lparr>v_x = clientX event - rect_left rect, v_y = clientY event - rect_top rect\<rparr>
          in (refs\<lparr>dragModeRef := none, pointerMovedRef := False\<rparr>,
              if dragModeRef refs = pan \<and> \<not> pointerMovedRef refs
              then [ProbeChange (screenToWorld cam point (rect_width rect) (rect_height rect))]
              else []))"

definition handleWheel :: "CameraState \<Rightarrow> Rect option \<Rightarrow> WheelEvent \<Rightarrow> Event list" where
  "handleWheel cam canvas event =
     (case canvas of
        None \<Rightarrow> []
      | Some rect \<Rightarrow>
          let pointer = \<lparr>v_x = clientX event - rect_left rect, v_y = clientY event - rect_top rect\<rparr>;
              zoomFactor = exp (- deltaY event * 0.001);
              newZoom = clamp (zoom cam * zoomFactor) MIN_ZOOM MAX_ZOOM;
              beforeZoom = screenToWorld cam pointer (rect_width rect) (rect_height rect);
              newCamera = cam\<lparr>zoom := newZoom\<rparr>;
              afterZoom =
                \<lparr>v_x = (v_x pointer - rect_width rect / 2) / newZoom + offsetX newCamera,
                 v_y = - (v_y pointer - rect_height rect / 2) / newZoom + offsetY newCamera\<rparr>;
              newCamera = newCamera\<lparr>offsetX := offsetX newCamera + (v_x beforeZoom - v_x afterZoom)\<rparr>;
              newCamera = newCamera\<lparr>offsetY := offsetY newCamera + (v_y beforeZoom - v_y afterZoom)\<rparr>
          in [CameraChange newCamera])"

section \<open>Matrix-vector product\<close>

text \<open>
  Claim C1. For every matrix \<open>{a,b,c,d}\<close> and every vector \<open>(x,y)\<close> the matrix-vector
  multiply returns exactly \<open>(a*x + b*y, c*x + d*y)\<close>. The function is a total HOL
  function with no error branch: the source has no throw, no early return and no
  partial operation.
\<close>

theorem multiplyMatrixVector_components:
  "v_x (multiplyMatrixVector \<lparr>m_a = a, m_b = b, m_c = c, m_d = d\<rparr> \<lparr>v_x = x, v_y = y\<rparr>)
     = a * x + b * y
   \<and> v_y (multiplyMatrixVector \<lparr>m_a = a, m_b = b, m_c = c, m_d = d\<rparr> \<lparr>v_x = x, v_y = y\<rparr>)
     = c * x + d * y"
  by (simp add: multiplyMatrixVector_def)

section \<open>Animation driver\<close>

lemma handleAnimationFrame_playing:
  assumes "isPlaying (state app)"
  shows "handleAnimationFrame delta app =
    (if t_param (state app) + delta * 0.0004 * directionRef app \<ge> 1
     then \<lparr>state = (state app)\<lparr>t_param := 1\<rparr>, directionRef = - 1\<rparr>
     else if t_param (state app) + delta * 0.0004 * directionRef app \<le> 0
     then \<lparr>state = (state app)\<lparr>t_param := 0\<rparr>, directionRef = 1\<rparr>
     else \<lparr>state = (state app)\<lparr>t_param := t_param (state app) + delta * 0.0004 * directionRef app\<rparr>,
           directionRef = directionRef app\<rparr>)"
  using assms by (simp add: handleAnimationFrame_def Let_def)

lemma handleAnimationFrame_paused:
  "\<not> isPlaying (state app) \<Longrightarrow> handleAnimationFrame delta app = app"
  by (simp add: handleAnimationFrame_def Let_def)

text \<open>
  Claim C2, as stated: for every state with \<open>t\<close> in \<open>[0,1]\<close> and every elapsed time, one
  tick advances \<open>t\<close> by \<open>elapsedMs * 0.0004 * direction\<close>, clamped at 0 and 1 with a flip
  of the direction there. The callback has a guard: in a state that is not playing it
  returns the previous state. After the slider has set \<open>t\<close> to \<open>1/2\<close> (which also
  stops playback), a tick of 100 ms with direction 1 would have to give
  \<open>1/2 + 100 * 0.0004 = 27/50\<close>, which is inside \<open>[0,1]\<close>; the callback leaves \<open>t\<close> at
  \<open>1/2\<close>.
\<close>

theorem handleAnimationFrame_paused_counterexample:
  "\<not> isPlaying (state (run [TChange (1 / 2)]))
   \<and> t_param (state (run [TChange (1 / 2)])) = 1 / 2
   \<and> directionRef (run [TChange (1 / 2)]) = 1
   \<and> t_param (state (run [TChange (1 / 2)])) + 100 * 0.0004 * directionRef (run [TChange (1 / 2)])
       = 27 / 50
   \<and> t_param (state (handleAnimationFrame 100 (run [TChange (1 / 2)]))) = 1 / 2
   \<and> t_param (state (handleAnimationFrame 100 (run [TChange (1 / 2)])))
       \<noteq> t_param (state (run [TChange (1 / 2)]))
           + 100 * 0.0004 * directionRef (run [TChange (1 / 2)])"
  by (simp add: run_def INITIAL_APP_def INITIAL_STATE_def handleTChange_def clamp_def
      handleAnimationFrame_def)

text \<open>
  Claim C2, amended: in every state in which \<open>isPlaying\<close> is set, one tick with elapsed
  time \<open>delta\<close> moves \<open>t\<close> to \<open>t + delta * 0.0004 * direction\<close>; when that value is 1 or
  more, \<open>t\<close> becomes 1 and the direction \<open>-1\<close>; when it is 0 or less, \<open>t\<close> becomes 0 and the
  direction \<open>+1\<close>; strictly between 0 and 1 the direction is kept. The direction
  therefore changes only in a tick that leaves \<open>t\<close> at 0 or at 1. In a state that is
  not playing the tick changes nothing.
\<close>

theorem handleAnimationFrame_tick:
  "(isPlaying (state app) \<longrightarrow>
      (1 \<le> t_param (state app) + delta * 0.0004 * directionRef app \<longrightarrow>
         t_param (state (handleAnimationFrame delta app)) = 1
         \<and> directionRef (handleAnimationFrame delta app) = - 1)
    \<and> (t_param (state app) + delta * 0.0004 * directionRef app \<le> 0 \<longrightarrow>
         t_param (state (handleAnimationFrame delta app)) = 0
         \<and> directionRef (handleAnimationFrame delta app) = 1)
    \<and> (0 < t_param (state app) + delta * 0.0004 * directionRef app
         \<and> t_param (state app) + delta * 0.0004 * directionRef app < 1 \<longrightarrow>
         t_param (state (handleAnimationFrame delta app))
           = t_param (state app) + delta * 0.0004 * directionRef app
         \<and> directionRef (handleAnimationFrame delta app) = directionRef app)
    \<and> (directionRef (handleAnimationFrame delta app) \<noteq> directionRef app \<longrightarrow>
         t_param (state (handleAnimationFrame delta app)) = 0
         \<or> t_param (state (handleAnimationFrame delta app)) = 1))
   \<and> (\<not> isPlaying (state app) \<longrightarrow> handleAnimationFrame delta app = app)"
proof (cases "isPlaying (state app)")
  case True
  then show ?thesis
    by (simp add: handleAnimationFrame_playing)
next
  case False
  then show ?thesis
    by (simp add: handleAnimationFrame_paused)
qed

text \<open>
  The amended claim at a playing state reached from the initial one: the slider sets
  \<open>t\<close> to \<open>9/10\<close>, playback is started, and a tick of 500 ms overshoots to \<open>11/10\<close>.
\<close>

theorem handleAnimationFrame_tick_witness:
  "isPlaying (state (run [TChange (9 / 10), PlayPause]))
   \<and> 1 \<le> t_param (state (run [TChange (9 / 10), PlayPause]))
           + 500 * 0.0004 * directionRef (run [TChange (9 / 10), PlayPause])
   \<and> t_param (state (handleAnimationFrame 500 (run [TChange (9 / 10), PlayPause]))) = 1
   \<and> directionRef (handleAnimationFrame 500 (run [TChange (9 / 10), PlayPause])) = - 1"
proof -
  have playing: "isPlaying (state (run [TChange (9 / 10), PlayPause]))"
    by (simp add: run_def INITIAL_APP_def INITIAL_STATE_def handleTChange_def handlePlayPause_def)
  have over: "1 \<le> t_param (state (run [TChange (9 / 10), PlayPause]))
      + 500 * 0.0004 * directionRef (run [TChange (9 / 10), PlayPause])"
    by (simp add: run_def INITIAL_APP_def INITIAL_STATE_def handleTChange_def handlePlayPause_def
        clamp_def)
  from handleAnimationFrame_tick [of "run [TChange (9 / 10), PlayPause]" 500] playing over
  show ?thesis by blast
qed

section \<open>The interpolation parameter stays in the unit interval\<close>

lemma foldl_step_invariant:
  assumes "P app" and "\<And>a e. P a \<Longrightarrow> P (step a e)"
  shows "P (foldl step app evs)"
  using assms(1)
proof (induction evs arbitrary: app)
  case Nil
  then show ?case by simp
next
  case (Cons e evs)
  then show ?case by (simp add: assms(2))
qed

lemma clamp_unit: "0 \<le> clamp v 0 1 \<and> clamp v 0 1 \<le> 1"
  by (simp add: clamp_def)

lemma handleTChange_range:
  "0 \<le> t_param (handleTChange v s) \<and> t_param (handleTChange v s) \<le> 1"
  using clamp_unit [of v] by (simp add: handleTChange_def)

lemma handleAnimationFrame_range:
  assumes "0 \<le> t_param (state app)" and "t_param (state app) \<le> 1"
  shows "0 \<le> t_param (state (handleAnimationFrame delta app))
       \<and> t_param (state (handleAnimationFrame delta app)) \<le> 1"
  using assms by (simp add: handleAnimationFrame_def Let_def)

lemma step_range:
  assumes "0 \<le> t_param (state app) \<and> t_param (state app) \<le> 1"
  shows "0 \<le> t_param (state (step app e)) \<and> t_param (state (step app e)) \<le> 1"
proof (cases e)
  case (TChange v)
  then show ?thesis using handleTChange_range [of v "state app"] by simp
next
  case (AnimationFrame delta)
  then show ?thesis using handleAnimationFrame_range [of app delta] assms by simp
qed (use assms in \<open>simp_all add: handlePresetChange_def handleMatrixChange_def
      handlePlayPause_def handleProbeChange_def handlePinVector_def Let_def
      handleGridModeChange_def handleCameraChange_def handleResetCamera_def\<close>)

lemma run_range: "0 \<le> t_param (state (run evs)) \<and> t_param (state (run evs)) \<le> 1"
  unfolding run_def
  by (rule foldl_step_invariant [where P = "\<lambda>a. 0 \<le> t_param (state a) \<and> t_param (state a) \<le> 1"])
     (simp_all add: INITIAL_APP_def INITIAL_STATE_def step_range)

text \<open>
  Claim C3. The interpolation parameter stays in \<open>[0,1]\<close>: the slider update stores a
  value in \<open>[0,1]\<close> for every input value, also one outside \<open>[0,1]\<close>; from every \<open>t\<close> in
  \<open>[0,1]\<close> and for every tick length the animation step gives a \<open>t\<close> in \<open>[0,1]\<close>; and so
  \<open>t\<close> is in \<open>[0,1]\<close> after every sequence of events from the initial state.
\<close>

theorem t_param_in_unit_interval:
  "0 \<le> t_param (handleTChange v s) \<and> t_param (handleTChange v s) \<le> 1
   \<and> (0 \<le> t_param (state app) \<and> t_param (state app) \<le> 1 \<longrightarrow>
        0 \<le> t_param (state (handleAnimationFrame delta app))
        \<and> t_param (state (handleAnimationFrame delta app)) \<le> 1)
   \<and> 0 \<le> t_param (state (run evs)) \<and> t_param (state (run evs)) \<le> 1"
  using handleTChange_range [of v s] handleAnimationFrame_range [of app delta] run_range [of evs]
  by blast

text \<open>
  Claim C3 at concrete inputs: the slider value 7 is stored as 1 and the value \<open>-3\<close> as
  0; a playing state at \<open>t = 9/10\<close> with a tick of 500 ms, which overshoots, ends at 1.
\<close>

theorem t_param_in_unit_interval_witness:
  "t_param (handleTChange 7 INITIAL_STATE) = 1
   \<and> t_param (handleTChange (- 3) INITIAL_STATE) = 0
   \<and> 0 \<le> t_param (state (run [TChange (9 / 10), PlayPause]))
   \<and> t_param (state (run [TChange (9 / 10), PlayPause])) \<le> 1
   \<and> 0 \<le> t_param (state (handleAnimationFrame 500 (run [TChange (9 / 10), PlayPause])))
   \<and> t_param (state (handleAnimationFrame 500 (run [TChange (9 / 10), PlayPause]))) \<le> 1"
proof -
  have slider: "t_param (handleTChange 7 INITIAL_STATE) = 1"
      "t_param (handleTChange (- 3) INITIAL_STATE) = 0"
    by (simp_all add: handleTChange_def clamp_def)
  have start: "0 \<le> t_param (state (run [TChange (9 / 10), PlayPause]))
      \<and> t_param (state (run [TChange (9 / 10), PlayPause])) \<le> 1"
    by (simp add: run_def INITIAL_APP_def INITIAL_STATE_def handleTChange_def handlePlayPause_def
        clamp_def)
  from t_param_in_unit_interval
    [of 7 INITIAL_STATE "run [TChange (9 / 10), PlayPause]" 500 "[]"] slider start
  show ?thesis by blast
qed

section \<open>Pinned vectors\<close>

lemma slice_last6_length: "length (slice (- 6) xs) \<le> 6"
  by (simp add: slice_def Let_def)

lemma slice_last6_short: "length xs < 6 \<Longrightarrow> slice (- 6) (xs @ [p]) = xs @ [p]"
  by (simp add: slice_def Let_def)

lemma slice_last6_full: "length xs = 6 \<Longrightarrow> slice (- 6) (xs @ [p]) = tl xs @ [p]"
  by (cases xs) (simp_all add: slice_def Let_def)

lemma handlePinVector_length: "length (pinnedVectors (handlePinVector tp s)) \<le> 6"
  by (simp add: handlePinVector_def Let_def slice_last6_length)

lemma step_pins:
  assumes "length (pinnedVectors (state app)) \<le> 6"
  shows "length (pinnedVectors (state (step app e))) \<le> 6"
proof (cases e)
  case PinVector
  then show ?thesis by (simp add: handlePinVector_length)
next
  case (AnimationFrame delta)
  then show ?thesis using assms by (simp add: handleAnimationFrame_def Let_def)
qed (use assms in \<open>simp_all add: handlePresetChange_def handleMatrixChange_def
      handlePlayPause_def handleProbeChange_def handleTChange_def
      handleGridModeChange_def handleCameraChange_def handleResetCamera_def\<close>)

lemma run_pins: "length (pinnedVectors (state (run evs))) \<le> 6"
  unfolding run_def
  by (rule foldl_step_invariant [where P = "\<lambda>a. length (pinnedVectors (state a)) \<le> 6"])
     (simp_all add: INITIAL_APP_def INITIAL_STATE_def step_pins)

text \<open>
  Claim C4. The list of pinned vectors has at most 6 entries in every state the
  component reaches, and after a pin whatever the list was before. Pinning appends, at
  the end, the probe vector of the state with its image under the matrix of the state;
  when the list already has 6 entries the first (oldest) one is dropped and the other
  five keep their order in front of the new entry.
\<close>

theorem handlePinVector_capped:
  "length (pinnedVectors (state (run evs))) \<le> 6
   \<and> length (pinnedVectors (handlePinVector (transformedProbe s) s)) \<le> 6
   \<and> (length (pinnedVectors s) < 6 \<longrightarrow>
        pinnedVectors (handlePinVector (transformedProbe s) s) =
          pinnedVectors s @
            [\<lparr>v_x = v_x (probeVector s), v_y = v_y (probeVector s),
              Tx = v_x (multiplyMatrixVector (matrix s) (probeVector s)),
              Ty = v_y (multiplyMatrixVector (matrix s) (probeVector s))\<rparr>])
   \<and> (length (pinnedVectors s) = 6 \<longrightarrow>
        pinnedVectors (handlePinVector (transformedProbe s) s) =
          tl (pinnedVectors s) @
            [\<lparr>v_x = v_x (probeVector s), v_y = v_y (probeVector s),
              Tx = v_x (multiplyMatrixVector (matrix s) (probeVector s)),
              Ty = v_y (multiplyMatrixVector (matrix s) (probeVector s))\<rparr>])"
  using run_pins [of evs] handlePinVector_length [of "transformedProbe s" s]
  by (simp add: handlePinVector_def Let_def transformedProbe_def slice_last6_short slice_last6_full)

text \<open>
  Claim C4 at a state with six pins, the axis-swap matrix and the probe vector \<open>(2,3)\<close>:
  the pin \<open>(1,0)\<close> is evicted and \<open>(2,3)\<close> with its image \<open>(3,2)\<close> is the last entry.
\<close>

theorem handlePinVector_capped_witness:
  "length (pinnedVectors
      (INITIAL_STATE
        \<lparr>matrix := \<lparr>m_a = 0, m_b = 1, m_c = 1, m_d = 0\<rparr>,
         probeVector := \<lparr>v_x = 2, v_y = 3\<rparr>,
         pinnedVectors :=
           [\<lparr>v_x = 1, v_y = 0, Tx = 0, Ty = 1\<rparr>, \<lparr>v_x = 2, v_y = 0, Tx = 0, Ty = 2\<rparr>,
            \<lparr>v_x = 3, v_y = 0, Tx = 0, Ty = 3\<rparr>, \<lparr>v_x = 4, v_y = 0, Tx = 0, Ty = 4\<rparr>,
            \<lparr>v_x = 5, v_y = 0, Tx = 0, Ty = 5\<rparr>, \<lparr>v_x = 6, v_y = 0, Tx = 0, Ty = 6\<rparr>]\<rparr>)) = 6
   \<and> pinnedVectors
      (handlePinVector
        (transformedProbe
          (INITIAL_STATE
            \<lparr>matrix := \<lparr>m_a = 0, m_b = 1, m_c = 1, m_d = 0\<rparr>,
             probeVector := \<lparr>v_x = 2, v_y = 3\<rparr>,
             pinnedVectors :=
               [\<lparr>v_x = 1, v_y = 0, Tx = 0, Ty = 1\<rparr>, \<lparr>v_x = 2, v_y = 0, Tx = 0, Ty = 2\<rparr>,
                \<lparr>v_x = 3, v_y = 0, Tx = 0, Ty = 3\<rparr>, \<lparr>v_x = 4, v_y = 0, Tx = 0, Ty = 4\<rparr>,
                \<lparr>v_x = 5, v_y = 0, Tx = 0, Ty = 5\<rparr>, \<lparr>v_x = 6, v_y = 0, Tx = 0, Ty = 6\<rparr>]\<rparr>))
        (INITIAL_STATE
          \<lparr>matrix := \<lparr>m_a = 0, m_b = 1, m_c = 1, m_d = 0\<rparr>,
           probeVector := \<lparr>v_x = 2, v_y = 3\<rparr>,
           pinnedVectors :=
             [\<lparr>v_x = 1, v_y = 0, Tx = 0, Ty = 1\<rparr>, \<lparr>v_x = 2, v_y = 0, Tx = 0, Ty = 2\<rparr>,
              \<lparr>v_x = 3, v_y = 0, Tx = 0, Ty = 3\<rparr>, \<lparr>v_x = 4, v_y = 0, Tx = 0, Ty = 4\<rparr>,
              \<lparr>v_x = 5, v_y = 0, Tx = 0, Ty = 5\<rparr>, \<lparr>v_x = 6, v_y = 0, Tx = 0, Ty = 6\<rparr>]\<rparr>))
     = [\<lparr>v_x = 2, v_y = 0, Tx = 0, Ty = 2\<rparr>, \<lparr>v_x = 3, v_y = 0, Tx = 0, Ty = 3\<rparr>,
        \<lparr>v_x = 4, v_y = 0, Tx = 0, Ty = 4\<rparr>, \<lparr>v_x = 5, v_y = 0, Tx = 0, Ty = 5\<rparr>,
        \<lparr>v_x = 6, v_y = 0, Tx = 0, Ty = 6\<rparr>, \<lparr>v_x = 2, v_y = 3, Tx = 3, Ty = 2\<rparr>]"
  using handlePinVector_capped
    [of "[]"
      "INITIAL_STATE
        \<lparr>matrix := \<lparr>m_a = 0, m_b = 1, m_c = 1, m_d = 0\<rparr>,
         probeVector := \<lparr>v_x = 2, v_y = 3\<rparr>,
         pinnedVectors :=
           [\<lparr>v_x = 1, v_y = 0, Tx = 0, Ty = 1\<rparr>, \<lparr>v_x = 2, v_y = 0, Tx = 0, Ty = 2\<rparr>,
            \<lparr>v_x = 3, v_y = 0, Tx = 0, Ty = 3\<rparr>, \<lparr>v_x = 4, v_y = 0, Tx = 0, Ty = 4\<rparr>,
            \<lparr>v_x = 5, v_y = 0, Tx = 0, Ty = 5\<rparr>, \<lparr>v_x = 6, v_y = 0, Tx = 0, Ty = 6\<rparr>]\<rparr>"]
  by (simp add: INITIAL_STATE_def multiplyMatrixVector_def)

section \<open>Camera model\<close>

lemma clamp_zoom: "MIN_ZOOM \<le> clamp v MIN_ZOOM MAX_ZOOM \<and> clamp v MIN_ZOOM MAX_ZOOM \<le> MAX_ZOOM"
  by (simp add: clamp_def MIN_ZOOM_def MAX_ZOOM_def)

text \<open>
  Claim C5. \<open>worldToScreen(p) = ((p.x - offsetX) * zoom + width/2,
  height/2 - (p.y - offsetY) * zoom)\<close>, and for every camera whose zoom is within its
  bounds, every viewport size and every world point \<open>p\<close>,
  \<open>screenToWorld(worldToScreen(p)) = p\<close>; the other composition is the identity on
  screen points as well. Over the reals the equalities are exact; the tolerance of
  the claim is the rounding of the floating-point arithmetic, which is not modelled.
\<close>

theorem screenToWorld_worldToScreen:
  "worldToScreen cam p w h =
     \<lparr>v_x = (v_x p - offsetX cam) * zoom cam + w / 2,
      v_y = h / 2 - (v_y p - offsetY cam) * zoom cam\<rparr>
   \<and> (MIN_ZOOM \<le> zoom cam \<and> zoom cam \<le> MAX_ZOOM \<longrightarrow>
        screenToWorld cam (worldToScreen cam p w h) w h = p
        \<and> worldToScreen cam (screenToWorld cam q w h) w h = q)"
  by (simp add: worldToScreen_def screenToWorld_def MIN_ZOOM_def)

text \<open>
  Claim C5 for the initial camera (zoom 80) and a viewport of 800 by 600: the world
  point \<open>(1,1)\<close> is drawn at \<open>(480, 220)\<close> and read back as \<open>(1,1)\<close>.
\<close>

theorem screenToWorld_worldToScreen_witness:
  "MIN_ZOOM \<le> zoom INITIAL_CAMERA \<and> zoom INITIAL_CAMERA \<le> MAX_ZOOM
   \<and> worldToScreen INITIAL_CAMERA \<lparr>v_x = 1, v_y = 1\<rparr> 800 600 = \<lparr>v_x = 480, v_y = 220\<rparr>
   \<and> screenToWorld INITIAL_CAMERA (worldToScreen INITIAL_CAMERA \<lparr>v_x = 1, v_y = 1\<rparr> 800 600) 800 600
       = \<lparr>v_x = 1, v_y = 1\<rparr>"
proof -
  have bounds: "MIN_ZOOM \<le> zoom INITIAL_CAMERA \<and> zoom INITIAL_CAMERA \<le> MAX_ZOOM"
    by (simp add: INITIAL_CAMERA_def MIN_ZOOM_def MAX_ZOOM_def)
  have drawn: "worldToScreen INITIAL_CAMERA \<lparr>v_x = 1, v_y = 1\<rparr> 800 600 = \<lparr>v_x = 480, v_y = 220\<rparr>"
    by (simp add: worldToScreen_def INITIAL_CAMERA_def)
  from screenToWorld_worldToScreen [of INITIAL_CAMERA "\<lparr>v_x = 1, v_y = 1\<rparr>" 800 600] bounds drawn
  show ?thesis by simp
qed

section \<open>Wheel zoom\<close>

text \<open>
  Claim C6. For every camera, in particular for every starting zoom in \<open>[20, 400]\<close>, and
  every wheel delta the wheel handler on a mounted canvas asks for exactly one camera
  change, whose zoom is the starting zoom times \<open>exp(-deltaY * 0.001)\<close>, clamped, and
  lies in \<open>[20, 400]\<close>. On a canvas that is not mounted the handler does nothing.
\<close>

theorem handleWheel_zoom_bounds:
  "handleWheel cam None ev = []
   \<and> (\<exists>cam'. handleWheel cam (Some rect) ev = [CameraChange cam']
        \<and> zoom cam' = clamp (zoom cam * exp (- deltaY ev * 0.001)) MIN_ZOOM MAX_ZOOM
        \<and> 20 \<le> zoom cam' \<and> zoom cam' \<le> 400)"
  using clamp_zoom [of "zoom cam * exp (- deltaY ev * 0.001)"]
  by (simp add: handleWheel_def Let_def MIN_ZOOM_def MAX_ZOOM_def)

text \<open>
  Claim C7. Zoom-to-cursor: for every camera of the data model (zoom within its
  bounds), every bounding rectangle of the canvas, every cursor position and every
  wheel delta, the camera the wheel handler asks for maps the cursor's screen position
  to the same world point as the camera before the event, and draws that world point
  at the cursor's screen position. Over the reals both equalities are exact.
\<close>

theorem handleWheel_zoom_to_cursor:
  assumes "MIN_ZOOM \<le> zoom cam" and "zoom cam \<le> MAX_ZOOM"
  shows "\<exists>cam'. handleWheel cam (Some rect) ev = [CameraChange cam']
     \<and> screenToWorld cam'
          \<lparr>v_x = clientX ev - rect_left rect, v_y = clientY ev - rect_top rect\<rparr>
          (rect_width rect) (rect_height rect)
       = screenToWorld cam
          \<lparr>v_x = clientX ev - rect_left rect, v_y = clientY ev - rect_top rect\<rparr>
          (rect_width rect) (rect_height rect)
     \<and> worldToScreen cam'
          (screenToWorld cam
             \<lparr>v_x = clientX ev - rect_left rect, v_y = clientY ev - rect_top rect\<rparr>
             (rect_width rect) (rect_height rect))
          (rect_width rect) (rect_height rect)
       = \<lparr>v_x = clientX ev - rect_left rect, v_y = clientY ev - rect_top rect\<rparr>"
proof -
  define z where "z = clamp (zoom cam * exp (- deltaY ev * 0.001)) MIN_ZOOM MAX_ZOOM"
  have "MIN_ZOOM \<le> z"
    using clamp_zoom unfolding z_def by blast
  then have "z \<noteq> 0"
    by (simp add: MIN_ZOOM_def)
  then show ?thesis
    unfolding z_def
    by (simp add: handleWheel_def Let_def screenToWorld_def worldToScreen_def field_simps)
qed

text \<open>
  Claim C7 at the initial camera (zoom 80), a canvas of 800 by 600 at \<open>(10, 20)\<close>, the
  cursor at client position \<open>(610, 170)\<close> and a wheel delta of \<open>-10000\<close>, which saturates
  the zoom at 400: the world point \<open>(5/2, 15/8)\<close> is under the cursor before and after.
\<close>

theorem handleWheel_zoom_to_cursor_witness:
  "MIN_ZOOM \<le> zoom INITIAL_CAMERA \<and> zoom INITIAL_CAMERA \<le> MAX_ZOOM
   \<and> handleWheel INITIAL_CAMERA
        (Some \<lparr>rect_left = 10, rect_top = 20, rect_width = 800, rect_height = 600\<rparr>)
        \<lparr>clientX = 610, clientY = 170, deltaY = - 10000\<rparr>
      = [CameraChange \<lparr>offsetX = 2, offsetY = 3 / 2, zoom = 400\<rparr>]
   \<and> screenToWorld INITIAL_CAMERA \<lparr>v_x = 600, v_y = 150\<rparr> 800 600 = \<lparr>v_x = 5 / 2, v_y = 15 / 8\<rparr>
   \<and> screenToWorld \<lparr>offsetX = 2, offsetY = 3 / 2, zoom = 400\<rparr> \<lparr>v_x = 600, v_y = 150\<rparr> 800 600
      = \<lparr>v_x = 5 / 2, v_y = 15 / 8\<rparr>"
proof -
  have bounds: "MIN_ZOOM \<le> zoom INITIAL_CAMERA" "zoom INITIAL_CAMERA \<le> MAX_ZOOM"
    by (simp_all add: INITIAL_CAMERA_def MIN_ZOOM_def MAX_ZOOM_def)
  have "1 + 10 \<le> exp (10 :: real)"
    by (rule exp_ge_add_one_self)
  then have saturated: "clamp (80 * exp (10 :: real)) MIN_ZOOM MAX_ZOOM = 400"
    by (simp add: clamp_def MIN_ZOOM_def MAX_ZOOM_def)
  have asked: "handleWheel INITIAL_CAMERA
        (Some \<lparr>rect_left = 10, rect_top = 20, rect_width = 800, rect_height = 600\<rparr>)
        \<lparr>clientX = 610, clientY = 170, deltaY = - 10000\<rparr>
      = [CameraChange \<lparr>offsetX = 2, offsetY = 3 / 2, zoom = 400\<rparr>]"
    by (simp add: handleWheel_def Let_def INITIAL_CAMERA_def screenToWorld_def saturated)
  have before: "screenToWorld INITIAL_CAMERA \<lparr>v_x = 600, v_y = 150\<rparr> 800 600
      = \<lparr>v_x = 5 / 2, v_y = 15 / 8\<rparr>"
    by (simp add: screenToWorld_def INITIAL_CAMERA_def)
  from handleWheel_zoom_to_cursor
    [OF bounds, of "\<lparr>rect_left = 10, rect_top = 20, rect_width = 800, rect_height = 600\<rparr>"
      "\<lparr>clientX = 610, clientY = 170, deltaY = - 10000\<rparr>"]
  have "screenToWorld \<lparr>offsetX = 2, offsetY = 3 / 2, zoom = 400\<rparr> \<lparr>v_x = 600, v_y = 150\<rparr> 800 600
      = screenToWorld INITIAL_CAMERA \<lparr>v_x = 600, v_y = 150\<rparr> 800 600"
    by (simp add: asked)
  with bounds asked before show ?thesis
    by simp
qed

section \<open>Panning\<close>

text \<open>
  Claim C8. For every camera of the data model (zoom within its bounds) and every
  pointer move on a mounted canvas while the drag mode is \<open>pan\<close>: with \<open>(dx, dy)\<close> the
  pixel delta between the pointer position and the last recorded one, the handler asks
  for the camera with \<open>offsetX - dx / zoom\<close>, \<open>offsetY + dy / zoom\<close> (the Y axis of the
  screen points down) and the same zoom, sets the moved flag, and records the pointer
  position. The world content follows the drag: the world point that was under the
  last pointer position is under the new one.
\<close>

theorem handlePointerMove_pan:
  assumes "dragModeRef refs = pan" and "MIN_ZOOM \<le> zoom cam" and "zoom cam \<le> MAX_ZOOM"
  shows "handlePointerMove cam (Some rect) refs ev =
      (refs\<lparr>pointerMovedRef := True,
            lastPointerRef := \<lparr>v_x = clientX ev - rect_left rect, v_y = clientY ev - rect_top rect\<rparr>\<rparr>,
       [CameraChange
          \<lparr>offsetX = offsetX cam - (clientX ev - rect_left rect - v_x (lastPointerRef refs)) / zoom cam,
           offsetY = offsetY cam + (clientY ev - rect_top rect - v_y (lastPointerRef refs)) / zoom cam,
           zoom = zoom cam\<rparr>])
    \<and> pointerMovedRef (fst (handlePointerMove cam (Some rect) refs ev)) = True
    \<and> screenToWorld
         \<lparr>offsetX = offsetX cam - (clientX ev - rect_left rect - v_x (lastPointerRef refs)) / zoom cam,
          offsetY = offsetY cam + (clientY ev - rect_top rect - v_y (lastPointerRef refs)) / zoom cam,
          zoom = zoom cam\<rparr>
         \<lparr>v_x = clientX ev - rect_left rect, v_y = clientY ev - rect_top rect\<rparr>
         (rect_width rect) (rect_height rect)
       = screenToWorld cam (lastPointerRef refs) (rect_width rect) (rect_height rect)"
  using assms
  by (simp add: handlePointerMove_def Let_def screenToWorld_def MIN_ZOOM_def field_simps)

text \<open>
  Claim C8 at the initial camera (zoom 80): the pointer was last at \<open>(100, 100)\<close> and
  moves to \<open>(180, 60)\<close> on the canvas, a delta of \<open>(80, -40)\<close> pixels; the offset moves
  from \<open>(0, 0)\<close> to \<open>(-1, -1/2)\<close>.
\<close>

theorem handlePointerMove_pan_witness:
  "dragModeRef \<lparr>dragModeRef = pan, pointerMovedRef = False,
                lastPointerRef = \<lparr>v_x = 100, v_y = 100\<rparr>\<rparr> = pan
   \<and> MIN_ZOOM \<le> zoom INITIAL_CAMERA \<and> zoom INITIAL_CAMERA \<le> MAX_ZOOM
   \<and> handlePointerMove INITIAL_CAMERA
        (Some \<lparr>rect_left = 10, rect_top = 20, rect_width = 800, rect_height = 600\<rparr>)
        \<lparr>dragModeRef = pan, pointerMovedRef = False, lastPointerRef = \<lparr>v_x = 100, v_y = 100\<rparr>\<rparr>
        \<lparr>clientX = 190, clientY = 80\<rparr>
      = (\<lparr>dragModeRef = pan, pointerMovedRef = True, lastPointerRef = \<lparr>v_x = 180, v_y = 60\<rparr>\<rparr>,
         [CameraChange \<lparr>offsetX = - 1, offsetY = - 1 / 2, zoom = 80\<rparr>])"
proof -
  have mode: "dragModeRef \<lparr>dragModeRef = pan, pointerMovedRef = False,
      lastPointerRef = \<lparr>v_x = 100, v_y = 100\<rparr>\<rparr> = pan"
    by simp
  have bounds: "MIN_ZOOM \<le> zoom INITIAL_CAMERA" "zoom INITIAL_CAMERA \<le> MAX_ZOOM"
    by (simp_all add: INITIAL_CAMERA_def MIN_ZOOM_def MAX_ZOOM_def)
  from handlePointerMove_pan
    [OF mode bounds, of "\<lparr>rect_left = 10, rect_top = 20, rect_width = 800, rect_height = 600\<rparr>"
      "\<lparr>clientX = 190, clientY = 80\<rparr>"]
  have "handlePointerMove INITIAL_CAMERA
        (Some \<lparr>rect_left = 10, rect_top = 20, rect_width = 800, rect_height = 600\<rparr>)
        \<lparr>dragModeRef = pan, pointerMovedRef = False, lastPointerRef = \<lparr>v_x = 100, v_y = 100\<rparr>\<rparr>
        \<lparr>clientX = 190, clientY = 80\<rparr>
      = (\<lparr>dragModeRef = pan, pointerMovedRef = True, lastPointerRef = \<lparr>v_x = 180, v_y = 60\<rparr>\<rparr>,
         [CameraChange \<lparr>offsetX = - 1, offsetY = - 1 / 2, zoom = 80\<rparr>])"
    by (simp add: INITIAL_CAMERA_def)
  with mode bounds show ?thesis
    by simp
qed

section \<open>Number formatting\<close>

lemma digit_cases: "d < 10 \<Longrightarrow> d \<in> {0, 1, 2, 3, 4, 5, 6, 7, 8, 9::nat}"
  by auto

lemma digit_char_is_digit: "d < 10 \<Longrightarrow> is_digit (digit_char d)"
  by (drule digit_cases) (auto simp add: is_digit_def digit_char_def)

lemma digit_value_digit_char: "d < 10 \<Longrightarrow> digit_value (digit_char d) = d"
  by (drule digit_cases) (auto simp add: digit_value_def digit_char_def)

lemma digits_nonempty: "digits n \<noteq> []"
  by (subst digits.simps) simp

lemma digits_all_digits: "list_all is_digit (digits n)"
proof (induction n rule: digits.induct)
  case (1 n)
  show ?case
  proof (cases "n < 10")
    case True
    then show ?thesis
      by (subst digits.simps) (simp add: digit_char_is_digit)
  next
    case False
    with 1 show ?thesis
      by (subst digits.simps) (simp add: digit_char_is_digit)
  qed
qed

lemma read_digits_snoc: "read_digits (cs @ [ch]) = 10 * read_digits cs + digit_value ch"
  by (simp add: read_digits_def)

lemma read_digits_digits: "read_digits (digits n) = n"
proof (induction n rule: digits.induct)
  case (1 n)
  show ?case
  proof (cases "n < 10")
    case True
    then show ?thesis
      by (subst digits.simps) (simp add: read_digits_def digit_value_digit_char)
  next
    case False
    with 1 show ?thesis
      by (subst digits.simps) (simp add: read_digits_snoc digit_value_digit_char)
  qed
qed

lemma read_digits_zero: "read_digits (CHR ''0'' # cs) = read_digits cs"
  by (simp add: read_digits_def digit_value_def)

lemma read_digits_zeros: "read_digits (replicate z (CHR ''0'') @ cs) = read_digits cs"
  by (induction z) (simp_all add: read_digits_zero)

lemma pad_zeros_length: "f < length (pad_zeros f m)"
  by (simp add: pad_zeros_def Let_def)

lemma pad_zeros_digits: "list_all is_digit m \<Longrightarrow> list_all is_digit (pad_zeros f m)"
  by (simp add: pad_zeros_def Let_def is_digit_def list_all_iff)

lemma pad_zeros_value: "read_digits (pad_zeros f m) = read_digits m"
  by (simp add: pad_zeros_def Let_def read_digits_zeros)

lemma round_half_up:
  assumes "0 \<le> (y::real)"
  shows "\<bar>real (nat \<lfloor>y + 1 / 2\<rfloor>) - y\<bar> \<le> 1 / 2"
proof -
  have "0 \<le> \<lfloor>y + 1 / 2\<rfloor>" using assms by simp
  then have "real (nat \<lfloor>y + 1 / 2\<rfloor>) = of_int \<lfloor>y + 1 / 2\<rfloor>" by simp
  moreover have "of_int \<lfloor>y + 1 / 2\<rfloor> \<le> y + 1 / 2" by (rule of_int_floor_le)
  moreover have "y + 1 / 2 < of_int \<lfloor>y + 1 / 2\<rfloor> + 1" by linarith
  ultimately show ?thesis by linarith
qed


lemma scaled_nearest:
  assumes "0 \<le> (x::real)"
  shows "\<bar>real (nat \<lfloor>x * 10 ^ f + 1 / 2\<rfloor>) / 10 ^ f - x\<bar> \<le> 1 / (2 * 10 ^ f)"
proof -
  define c :: real where "c = 10 ^ f"
  define a where "a = real (nat \<lfloor>x * c + 1 / 2\<rfloor>)"
  have c: "0 < c" by (simp add: c_def)
  have "0 \<le> x * c" using assms c by simp
  then have half: "\<bar>a - x * c\<bar> \<le> 1 / 2"
    unfolding a_def by (rule round_half_up)
  have "\<bar>a - x * c\<bar> / c \<le> (1 / 2) / c"
    by (rule divide_right_mono [OF half]) (use c in simp)
  moreover have "a / c - x = (a - x * c) / c"
    using c by (simp add: field_simps)
  then have "\<bar>a / c - x\<bar> = \<bar>a - x * c\<bar> / c"
    using c by (simp add: abs_divide)
  ultimately have "\<bar>a / c - x\<bar> \<le> 1 / (2 * c)"
    by simp
  then show ?thesis
    by (simp add: a_def c_def)
qed

lemma hd_sentinel: "hd sentinel = CHR 0xC3"
  by (simp add: sentinel_def)

lemma not_digit_C3: "\<not> is_digit (CHR 0xC3)"
  by (simp add: is_digit_def)

lemma rendering_not_sentinel:
  assumes "ip \<noteq> []" and "list_all is_digit ip"
  shows "(if neg then ''-'' else []) @ ip @ rest \<noteq> sentinel"
proof (cases ip)
  case Nil
  with assms(1) show ?thesis by simp
next
  case (Cons ch cs)
  with assms(2) have "is_digit ch" by simp
  then have "ch \<noteq> CHR 0xC3" using not_digit_C3 by auto
  with Cons show ?thesis by (simp add: sentinel_def)
qed

lemma toFixed_fixed:
  assumes small: "\<bar>r\<bar> < 10 ^ 21"
    and prec: "ToIntegerOrInfinity p = Integral (int f)" and range: "f \<le> 100"
  shows "\<exists>ip fp.
      toFixed toString (Finite r) p =
        Inr ((if r < 0 then ''-'' else []) @ ip @ (if f = 0 then [] else ''.'' @ fp))
      \<and> ip \<noteq> [] \<and> list_all is_digit ip \<and> list_all is_digit fp \<and> length fp = f
      \<and> \<bar>real (read_digits (ip @ fp)) / 10 ^ f - \<bar>r\<bar>\<bar> \<le> 1 / (2 * 10 ^ f)"
proof -
  define n where "n = nat \<lfloor>\<bar>r\<bar> * 10 ^ f + 1 / 2\<rfloor>"
  define m where "m = pad_zeros f (digits n)"
  have near: "\<bar>real n / 10 ^ f - \<bar>r\<bar>\<bar> \<le> 1 / (2 * 10 ^ f)"
    unfolding n_def by (rule scaled_nearest) simp
  have result: "toFixed toString (Finite r) p =
      Inr ((if r < 0 then ''-'' else []) @ (if f \<noteq> 0 then insert_point f m else digits n))"
    using small prec range by (simp add: toFixed_def Let_def n_def m_def)
  show ?thesis
  proof (cases "f = 0")
    case True
    with result near show ?thesis
      by (intro exI [of _ "digits n"] exI [of _ "[]"])
         (simp add: digits_nonempty digits_all_digits read_digits_digits)
  next
    case False
    have len: "f < length m"
      unfolding m_def by (rule pad_zeros_length)
    have all: "list_all is_digit m"
      unfolding m_def by (rule pad_zeros_digits) (rule digits_all_digits)
    have val: "read_digits m = n"
      unfolding m_def by (simp add: pad_zeros_value read_digits_digits)
    let ?ip = "take (length m - f) m" and ?fp = "drop (length m - f) m"
    have "?ip \<noteq> []" using len by auto
    moreover have "list_all is_digit ?ip" "list_all is_digit ?fp"
      using all by (auto simp add: list_all_iff dest: in_set_takeD in_set_dropD)
    moreover have "length ?fp = f" using len by simp
    moreover have "read_digits (?ip @ ?fp) = n" using val by simp
    moreover have "toFixed toString (Finite r) p =
        Inr ((if r < 0 then ''-'' else []) @ ?ip @ ''.'' @ ?fp)"
      using result False by (simp add: insert_point_def Let_def)
    ultimately show ?thesis
      using near False by (intro exI [of _ ?ip] exI [of _ ?fp]) simp
  qed
qed

text \<open>
  Claim C9, as stated: for every finite value and every precision the operation
  returns the value rendered with that fixed decimal precision, and for every
  non-finite value a dash glyph. The operation hands a finite value and the precision
  to \<open>toFixed\<close> without a check of its own: with precision 101 the call throws
  \<open>RangeError\<close>; the value \<open>10^21\<close> is returned in the general notation of the language
  (\<open>''1e+21''\<close> is what \<open>Number::toString\<close> gives for it) with no fractional digit at
  precision 2; and the literal returned for \<open>NaN\<close> is not the dash U+2014 (bytes
  \<open>E2 80 94\<close>).
\<close>

theorem formatNumber_counterexample:
  "formatNumber (\<lambda>x. ''1e+21'') (Finite 1) (Some (Finite 101)) = Inl RangeError
   \<and> formatNumber (\<lambda>x. ''1e+21'') (Finite (10 ^ 21)) (Some (Finite 2)) = Inr ''1e+21''
   \<and> formatNumber (\<lambda>x. ''1e+21'') NaN None \<noteq> Inr [CHR 0xE2, CHR 0x80, CHR 0x94]"
  by (simp add: formatNumber_def toFixed_def sentinel_def)

text \<open>
  Claim C9, amended: for every finite value of magnitude below \<open>10^21\<close> and every
  precision whose integer part \<open>f\<close> lies between 0 and 100 (2 when the argument is
  omitted) the operation returns, without raising, a sign \<open>-\<close> for a negative value,
  then a non-empty string of digits, then, when \<open>f\<close> is not 0, a point and exactly \<open>f\<close>
  digits; the decimal number written there is within half a unit of the last digit
  of the magnitude of the value; and this rendering is never the sentinel. For \<open>NaN\<close>,
  \<open>+Infinity\<close> and \<open>-Infinity\<close> the operation returns the sentinel, a non-empty string,
  as a normal result for every precision.
\<close>

theorem formatNumber_fixed_precision:
  "(\<bar>r\<bar> < 10 ^ 21
      \<and> ToIntegerOrInfinity (case prec of None \<Rightarrow> Finite 2 | Some p \<Rightarrow> p) = Integral (int f)
      \<and> f \<le> 100 \<longrightarrow>
      (\<exists>ip fp.
          formatNumber toString (Finite r) prec =
            Inr ((if r < 0 then ''-'' else []) @ ip @ (if f = 0 then [] else ''.'' @ fp))
          \<and> ip \<noteq> [] \<and> list_all is_digit ip \<and> list_all is_digit fp \<and> length fp = f
          \<and> \<bar>real (read_digits (ip @ fp)) / 10 ^ f - \<bar>r\<bar>\<bar> \<le> 1 / (2 * 10 ^ f))
      \<and> formatNumber toString (Finite r) prec \<noteq> Inr sentinel)
   \<and> formatNumber toString NaN prec = Inr sentinel
   \<and> formatNumber toString PosInfinity prec = Inr sentinel
   \<and> formatNumber toString NegInfinity prec = Inr sentinel
   \<and> sentinel \<noteq> []"
proof -
  have finite: "formatNumber toString (Finite r) prec =
      toFixed toString (Finite r) (case prec of None \<Rightarrow> Finite 2 | Some p \<Rightarrow> p)"
    by (simp add: formatNumber_def)
  have fixed: "(\<exists>ip fp.
          formatNumber toString (Finite r) prec =
            Inr ((if r < 0 then ''-'' else []) @ ip @ (if f = 0 then [] else ''.'' @ fp))
          \<and> ip \<noteq> [] \<and> list_all is_digit ip \<and> list_all is_digit fp \<and> length fp = f
          \<and> \<bar>real (read_digits (ip @ fp)) / 10 ^ f - \<bar>r\<bar>\<bar> \<le> 1 / (2 * 10 ^ f))
      \<and> formatNumber toString (Finite r) prec \<noteq> Inr sentinel"
    if hyps: "\<bar>r\<bar> < 10 ^ 21"
      "ToIntegerOrInfinity (case prec of None \<Rightarrow> Finite 2 | Some p \<Rightarrow> p) = Integral (int f)"
      "f \<le> 100"
  proof -
    from toFixed_fixed [OF hyps(1) hyps(2) hyps(3), of toString]
    obtain ip fp where shape:
      "toFixed toString (Finite r) (case prec of None \<Rightarrow> Finite 2 | Some p \<Rightarrow> p) =
        Inr ((if r < 0 then ''-'' else []) @ ip @ (if f = 0 then [] else ''.'' @ fp))"
      and rest: "ip \<noteq> []" "list_all is_digit ip" "list_all is_digit fp" "length fp = f"
        "\<bar>real (read_digits (ip @ fp)) / 10 ^ f - \<bar>r\<bar>\<bar> \<le> 1 / (2 * 10 ^ f)"
      by blast
    have "(if r < 0 then ''-'' else []) @ ip @ (if f = 0 then [] else ''.'' @ fp) \<noteq> sentinel"
      using rest(1,2) by (rule rendering_not_sentinel)
    with shape rest finite show ?thesis by auto
  qed
  have nonfinite: "formatNumber toString NaN prec = Inr sentinel"
    "formatNumber toString PosInfinity prec = Inr sentinel"
    "formatNumber toString NegInfinity prec = Inr sentinel"
    by (simp_all add: formatNumber_def)
  have "sentinel \<noteq> []"
    by (simp add: sentinel_def)
  with fixed nonfinite show ?thesis by blast
qed

text \<open>
  The amended claim at the value \<open>15/4\<close> and precision 1, a tie, which is rendered
  \<open>3.8\<close>; further renderings: \<open>-3/2\<close> at precision 0, \<open>1/8\<close> at the default precision,
  and \<open>-1/1024\<close> at precision 2.
\<close>

theorem formatNumber_fixed_precision_witness:
  "\<bar>15 / 4\<bar> < (10 :: real) ^ 21
   \<and> ToIntegerOrInfinity (case Some (Finite 1) of None \<Rightarrow> Finite 2 | Some p \<Rightarrow> p)
       = Integral (int 1)
   \<and> (1 :: nat) \<le> 100
   \<and> formatNumber (\<lambda>x. []) (Finite (15 / 4)) (Some (Finite 1)) = Inr ''3.8''
   \<and> formatNumber (\<lambda>x. []) (Finite (15 / 4)) (Some (Finite 1)) \<noteq> Inr sentinel
   \<and> formatNumber (\<lambda>x. []) NaN (Some (Finite 1)) = Inr sentinel
   \<and> formatNumber (\<lambda>x. []) (Finite (- 3 / 2)) (Some (Finite 0)) = Inr ''-2''
   \<and> formatNumber (\<lambda>x. []) (Finite (1 / 8)) None = Inr ''0.13''
   \<and> formatNumber (\<lambda>x. []) (Finite (- 1 / 1024)) (Some (Finite 2)) = Inr ''-0.00''"
proof -
  have small: "\<bar>15 / 4\<bar> < (10 :: real) ^ 21"
    by simp
  have prec: "ToIntegerOrInfinity (case Some (Finite 1) of None \<Rightarrow> Finite 2 | Some p \<Rightarrow> p)
      = Integral (int 1)"
    by simp
  have range: "(1 :: nat) \<le> 100"
    by simp
  have rendered:
    "formatNumber (\<lambda>x. []) (Finite (15 / 4)) (Some (Finite 1)) = Inr ''3.8''"
    "formatNumber (\<lambda>x. []) (Finite (- 3 / 2)) (Some (Finite 0)) = Inr ''-2''"
    "formatNumber (\<lambda>x. []) (Finite (1 / 8)) None = Inr ''0.13''"
    "formatNumber (\<lambda>x. []) (Finite (- 1 / 1024)) (Some (Finite 2)) = Inr ''-0.00''"
    by (simp_all add: formatNumber_def toFixed_def digits.simps digit_char_def pad_zeros_def
        insert_point_def Let_def)
  from formatNumber_fixed_precision [of "15 / 4" "Some (Finite 1)" 1 "\<lambda>x. []"] small prec range
  have "formatNumber (\<lambda>x. []) (Finite (15 / 4)) (Some (Finite 1)) \<noteq> Inr sentinel
      \<and> formatNumber (\<lambda>x. []) NaN (Some (Finite 1)) = Inr sentinel"
    by blast
  with small prec range rendered show ?thesis
    by blast
qed

section \<open>Moving the slider stops playback\<close>

text \<open>
  Claim C10. Setting \<open>t\<close> through the slider update sets \<open>isPlaying\<close> to false in every
  state, stores the clamped value, and leaves the matrix, the probe vector, the pinned
  vectors, the camera, the grid mode and the preset id as they were.
\<close>

theorem handleTChange_stops_playing:
  "isPlaying (handleTChange v s) = False
   \<and> t_param (handleTChange v s) = clamp v 0 1
   \<and> matrix (handleTChange v s) = matrix s
   \<and> probeVector (handleTChange v s) = probeVector s
   \<and> pinnedVectors (handleTChange v s) = pinnedVectors s
   \<and> camera (handleTChange v s) = camera s
   \<and> gridMode (handleTChange v s) = gridMode s
   \<and> presetId (handleTChange v s) = presetId s"
  by (simp add: handleTChange_def)


end
